theory Spec2Isabelle
  imports Complex_Main
begin

section \<open>Transcript rubric scorer: a shallow embedding of evaluate\_intro.py\<close>

text \<open>
  Conventions of the embedding.
  \<^item> A Python \<open>str\<close> is a \<open>string\<close> (a list of 8-bit characters). The character
    classes of the source (\<open>str.lower\<close>, \<open>str.split\<close>, \<open>str.strip\<close>, and the regular
    expression classes \<open>\\w\<close>, \<open>\\d\<close>, \<open>\\s\<close>, \<open>\\b\<close>) are modelled on the ASCII range;
    a character above 127 is left unchanged by \<open>lower\<close> and is neither a letter, a
    digit nor white space.
  \<^item> A Python \<open>int\<close> is an \<open>int\<close>; a Python \<open>float\<close> is an exact rational (\<open>rat\<close>):
    rounding error of binary floating point is not modelled, so a value that the
    code computes a last digit off a band edge or a rounding tie may fall on the other
    side here; the statements below evaluate no function at such a value.
  \<^item> An exception is a value: a function that can raise returns \<open>exn + 'a\<close>, with
    \<open>Inl\<close> the exception. A true division is \<open>truediv\<close>, which raises
    \<open>ZeroDivisionError\<close> on a zero divisor.
  \<^item> The external libraries (language\_tool\_python, lexicalrichness) are not part of
    the repository: they are parameters of the evaluators that use them, collected in
    the record \<open>capabilities\<close>, and each of their calls may raise.
\<close>

subsection \<open>Exceptions and arithmetic\<close>

datatype exn = ZeroDivisionError | CapabilityError string

definition truediv :: "rat \<Rightarrow> rat \<Rightarrow> exn + rat" where
  "truediv a b = (if b = 0 then Inl ZeroDivisionError else Inr (a / b))"

text \<open>\<open>try: body except Exception: handler\<close>: every modelled exception is an \<open>Exception\<close>.\<close>

definition try_except :: "exn + 'a \<Rightarrow> (exn \<Rightarrow> exn + 'a) \<Rightarrow> exn + 'a" where
  "try_except body handler = (case body of Inl e \<Rightarrow> handler e | Inr v \<Rightarrow> Inr v)"

text \<open>Sequencing: an exception of the first computation leaves the function.\<close>

definition and_then :: "exn + 'a \<Rightarrow> ('a \<Rightarrow> exn + 'b) \<Rightarrow> exn + 'b" where
  "and_then m f = (case m of Inl e \<Rightarrow> Inl e | Inr v \<Rightarrow> f v)"

text \<open>\<open>round(x, 2)\<close> on an exact value: to the nearest hundredth, ties to even.\<close>

definition round_half_even :: "rat \<Rightarrow> int" where
  "round_half_even x =
     (let f = \<lfloor>x\<rfloor>; d = x - of_int f
      in if d < 1 / 2 then f
         else if 1 / 2 < d then f + 1
         else if even f then f else f + 1)"

definition round2 :: "rat \<Rightarrow> rat" where
  "round2 x = of_int (round_half_even (x * 100)) / 100"

text \<open>\<open>n or 1\<close> for an integer \<open>n\<close>.\<close>

definition or_1 :: "int \<Rightarrow> int" where
  "or_1 n = (if n = 0 then 1 else n)"

subsection \<open>Characters and strings\<close>

definition is_upper :: "char \<Rightarrow> bool" where
  "is_upper c = (let n = (of_char c :: nat) in 65 \<le> n \<and> n \<le> 90)"

definition is_lower :: "char \<Rightarrow> bool" where
  "is_lower c = (let n = (of_char c :: nat) in 97 \<le> n \<and> n \<le> 122)"

definition is_digit :: "char \<Rightarrow> bool" where
  "is_digit c = (let n = (of_char c :: nat) in 48 \<le> n \<and> n \<le> 57)"

text \<open>White space of \<open>str.split()\<close>, \<open>str.strip()\<close> and \<open>\\s\<close>: tab, line feed, vertical
  tab, form feed, carriage return, the separators 28 to 31, and the space.\<close>

definition is_space :: "char \<Rightarrow> bool" where
  "is_space c = (let n = (of_char c :: nat) in (9 \<le> n \<and> n \<le> 13) \<or> (28 \<le> n \<and> n \<le> 32))"

text \<open>\<open>\\w\<close>: letters, digits and the underscore.\<close>

definition is_word :: "char \<Rightarrow> bool" where
  "is_word c = (is_upper c \<or> is_lower c \<or> is_digit c \<or> c = CHR ''_'')"

text \<open>\<open>str.lower\<close> on one character: the table of the 26 ASCII capitals.\<close>

definition lower_char :: "char \<Rightarrow> char" where
  "lower_char c =
     (case map_of (zip ''ABCDEFGHIJKLMNOPQRSTUVWXYZ'' ''abcdefghijklmnopqrstuvwxyz'') c of
        None \<Rightarrow> c
      | Some d \<Rightarrow> d)"

definition lower :: "string \<Rightarrow> string" where
  "lower s = map lower_char s"

definition strip :: "string \<Rightarrow> string" where
  "strip s = rev (dropWhile is_space (rev (dropWhile is_space s)))"

text \<open>\<open>s.startswith(p)\<close>.\<close>

fun startswith :: "string \<Rightarrow> string \<Rightarrow> bool" where
  "startswith s [] = True"
| "startswith [] (p # ps) = False"
| "startswith (c # cs) (p # ps) = (c = p \<and> startswith cs ps)"

text \<open>\<open>s.find(sub)\<close>: the least index at which \<open>sub\<close> starts, or \<open>-1\<close>. The second
  function carries the index of the current position.\<close>

fun find_from :: "int \<Rightarrow> string \<Rightarrow> string \<Rightarrow> int" where
  "find_from i [] sub = (if sub = [] then i else - 1)"
| "find_from i (c # cs) sub = (if startswith (c # cs) sub then i else find_from (i + 1) cs sub)"

definition find :: "string \<Rightarrow> string \<Rightarrow> int" where
  "find s sub = find_from 0 s sub"

text \<open>\<open>s.count(sub)\<close> for a non-empty \<open>sub\<close>: the occurrences that do not overlap, from
  the left. The first argument is the number of characters still covered by the last
  occurrence counted.\<close>

fun count_from :: "nat \<Rightarrow> string \<Rightarrow> string \<Rightarrow> int" where
  "count_from k [] sub = 0"
| "count_from (Suc k) (c # cs) sub = count_from k cs sub"
| "count_from 0 (c # cs) sub =
     (if startswith (c # cs) sub then 1 + count_from (length sub - 1) cs sub
      else count_from 0 cs sub)"

definition count_str :: "string \<Rightarrow> string \<Rightarrow> int" where
  "count_str s sub = count_from 0 s sub"

text \<open>Splitting into maximal runs of the characters that satisfy \<open>p\<close>; \<open>cur\<close> is the run
  being read, reversed.\<close>

fun runs :: "(char \<Rightarrow> bool) \<Rightarrow> string \<Rightarrow> string \<Rightarrow> string list" where
  "runs p cur [] = (if cur = [] then [] else [rev cur])"
| "runs p cur (c # cs) =
     (if p c then runs p (c # cur) cs
      else if cur = [] then runs p [] cs
      else rev cur # runs p [] cs)"

text \<open>\<open>s.split()\<close>: the maximal runs of characters that are not white space.\<close>

definition split_ws :: "string \<Rightarrow> string list" where
  "split_ws s = runs (\<lambda>c. \<not> is_space c) [] s"

text \<open>\<open>s.split(sep)\<close> for a one-character separator: empty pieces are kept.\<close>

fun split_on :: "char \<Rightarrow> string \<Rightarrow> string \<Rightarrow> string list" where
  "split_on sep cur [] = [rev cur]"
| "split_on sep cur (c # cs) =
     (if c = sep then rev cur # split_on sep [] cs else split_on sep (c # cur) cs)"

definition split_char :: "string \<Rightarrow> char \<Rightarrow> string list" where
  "split_char s sep = split_on sep [] s"

text \<open>\<open>" ".join(ws)\<close>.\<close>

fun join_space :: "string list \<Rightarrow> string" where
  "join_space [] = []"
| "join_space [w] = w"
| "join_space (w # v # ws) = w @ '' '' @ join_space (v # ws)"

text \<open>\<open>word_list\<close>: \<open>re.findall(r"[A-Za-z']+", text.lower())\<close>, the maximal runs of
  letters and apostrophes of the lowered text.\<close>

definition word_list :: "string \<Rightarrow> string list" where
  "word_list text = runs (\<lambda>c. is_upper c \<or> is_lower c \<or> c = CHR 0x27) [] (lower text)"

subsection \<open>Regular expressions\<close>

text \<open>
  The patterns of the source use literals, the classes \<open>\\d\<close>, \<open>\\w\<close>, \<open>\\s\<close> and a
  bracket class, the word boundary \<open>\\b\<close>, concatenation, alternation, the optional
  \<open>?\<close>, greedy repetition of a class (\<open>*\<close>, \<open>+\<close>, \<open>{m,n}\<close>, \<open>{m,}\<close>), one capturing
  group and a back-reference to it. \<open>rx\<close> is that fragment; \<open>rx_match\<close> is the
  backtracking matcher of Python's \<open>re\<close>: at a position it lists every way the
  pattern can match there, in the order in which \<open>re\<close> tries them, so its head is the
  match \<open>re\<close> reports.
\<close>

datatype cclass = CDigit | CWord | CSpace | COneOf string

fun in_class :: "cclass \<Rightarrow> char \<Rightarrow> bool" where
  "in_class CDigit c = is_digit c"
| "in_class CWord c = is_word c"
| "in_class CSpace c = is_space c"
| "in_class (COneOf cs) c = (c \<in> set cs)"

datatype rx =
    Lit string
  | Cls cclass
  | Bnd
  | Seq rx rx
  | Alt rx rx
  | Opt rx
  | Rep cclass nat "nat option"
  | Grp rx
  | Back

text \<open>A position in the subject: the character before it (if any), the text from it
  on, and what the group has captured.\<close>

type_synonym mstate = "char option \<times> string \<times> string option"

fun advance :: "nat \<Rightarrow> mstate \<Rightarrow> mstate" where
  "advance 0 st = st"
| "advance (Suc n) (p, [], g) = (p, [], g)"
| "advance (Suc n) (p, c # cs, g) = advance n (Some c, cs, g)"

fun at_boundary :: "mstate \<Rightarrow> bool" where
  "at_boundary (p, r, g) =
     ((case p of None \<Rightarrow> False | Some c \<Rightarrow> is_word c) \<noteq>
      (case r of [] \<Rightarrow> False | c # cs \<Rightarrow> is_word c))"

fun rx_match :: "rx \<Rightarrow> mstate \<Rightarrow> mstate list" where
  "rx_match (Lit s) (p, r, g) = (if startswith r s then [advance (length s) (p, r, g)] else [])"
| "rx_match (Cls k) (p, r, g) =
     (case r of [] \<Rightarrow> [] | c # cs \<Rightarrow> if in_class k c then [(Some c, cs, g)] else [])"
| "rx_match Bnd st = (if at_boundary st then [st] else [])"
| "rx_match (Seq a b) st = concat (map (rx_match b) (rx_match a st))"
| "rx_match (Alt a b) st = rx_match a st @ rx_match b st"
| "rx_match (Opt a) st = rx_match a st @ [st]"
| "rx_match (Rep k lo hi) (p, r, g) =
     (let avail = length (takeWhile (in_class k) r);
          most = (case hi of None \<Rightarrow> avail | Some h \<Rightarrow> min h avail)
      in map (\<lambda>n. advance n (p, r, g)) (rev [lo ..< Suc most]))"
| "rx_match (Grp a) (p, r, g) =
     map (\<lambda>(p', r', g'). (p', r', Some (take (length r - length r') r))) (rx_match a (p, r, g))"
| "rx_match Back (p, r, g) =
     (case g of
        None \<Rightarrow> []
      | Some s \<Rightarrow> if startswith r s then [advance (length s) (p, r, g)] else [])"

text \<open>\<open>re.search(pat, t)\<close>: the start of the leftmost match, or \<open>None\<close>.\<close>

fun search_from :: "rx \<Rightarrow> int \<Rightarrow> char option \<Rightarrow> string \<Rightarrow> int option" where
  "search_from pat i p [] = (if rx_match pat (p, [], None) = [] then None else Some i)"
| "search_from pat i p (c # cs) =
     (if rx_match pat (p, c # cs, None) = [] then search_from pat (i + 1) (Some c) cs
      else Some i)"

definition re_search :: "rx \<Rightarrow> string \<Rightarrow> int option" where
  "re_search pat t = search_from pat 0 None t"

definition matches :: "string \<Rightarrow> rx \<Rightarrow> bool" where
  "matches t pat = (re_search pat t \<noteq> None)"

text \<open>\<open>len(re.findall(pat, t))\<close> for a pattern that matches no empty string: the
  matches that do not overlap, from the left. The first number is how many characters
  the last match still covers.\<close>

fun findall_from :: "rx \<Rightarrow> nat \<Rightarrow> char option \<Rightarrow> string \<Rightarrow> int" where
  "findall_from pat k p [] = 0"
| "findall_from pat (Suc k) p (c # cs) = findall_from pat k (Some c) cs"
| "findall_from pat 0 p (c # cs) =
     (case rx_match pat (p, c # cs, None) of
        [] \<Rightarrow> findall_from pat 0 (Some c) cs
      | (p', r', g') # other \<Rightarrow> 1 + findall_from pat (length (c # cs) - length r' - 1) (Some c) cs)"

definition findall_count :: "rx \<Rightarrow> string \<Rightarrow> int" where
  "findall_count pat t = findall_from pat 0 None t"

text \<open>Concatenation and alternation of several patterns.\<close>

fun cat :: "rx list \<Rightarrow> rx" where
  "cat [] = Lit []"
| "cat [a] = a"
| "cat (a # b # rs) = Seq a (cat (b # rs))"

fun alt :: "rx list \<Rightarrow> rx" where
  "alt [] = Cls (COneOf [])"
| "alt [a] = a"
| "alt (a # b # rs) = Alt a (alt (b # rs))"

text \<open>\<open>\\b(w1|w2|...)\\b\<close>, the shape of most patterns of the source.\<close>

definition whole :: "string list \<Rightarrow> rx" where
  "whole ws = cat [Bnd, alt (map Lit ws), Bnd]"

subsection \<open>The entry point\<close>

record criterion =
  name :: string
  weight :: int
  score :: int
  feedback :: string

record score_report =
  overall_score :: rat
  words :: int
  sentences :: int
  wpm :: rat
  criteria :: "criterion list"

text \<open>\<open>score_transcript(transcript, duration_sec=None)\<close>. The test \<open>not duration_sec\<close>
  holds for \<open>None\<close> and for zero.\<close>

definition score_transcript :: "string \<Rightarrow> rat option \<Rightarrow> exn + score_report" where
  "score_transcript transcript duration_sec =
     (let n_words = int (length (split_ws transcript));
          n_sentences = int (length (filter (\<lambda>s. strip s \<noteq> []) (split_char transcript CHR ''.'')));
          salutation_score = (4 :: int);
          keyword_score = (24 :: int);
          flow_score = (5 :: int);
          speech_rate_score = (10 :: int);
          grammar_score = (8 :: int);
          vocabulary_score = (6 :: int);
          filler_score = (12 :: int);
          sentiment_score = (12 :: int);
          total =
            of_int salutation_score * (5 / 5) +
            of_int keyword_score * (30 / 30) +
            of_int flow_score * (5 / 5) +
            of_int speech_rate_score * (10 / 10) +
            of_int grammar_score * (10 / 10) +
            of_int vocabulary_score * (10 / 10) +
            of_int filler_score * (15 / 15) +
            of_int sentiment_score * (15 / 15)
      in and_then
           (case duration_sec of
              None \<Rightarrow> Inr 120
            | Some d \<Rightarrow>
                if d = 0 then Inr 120
                else and_then (truediv (of_int n_words) d) (\<lambda>q. Inr (round2 (q * 60))))
           (\<lambda>w. Inr \<lparr>overall_score = round2 total,
                     words = n_words,
                     sentences = n_sentences,
                     wpm = w,
                     criteria =
                       [\<lparr>name = ''Salutation Level'', weight = 5, score = salutation_score,
                          feedback = ''Detected greeting''\<rparr>,
                        \<lparr>name = ''Keyword Presence'', weight = 30, score = keyword_score,
                          feedback = ''Basic details found''\<rparr>,
                        \<lparr>name = ''Flow Order'', weight = 5, score = flow_score,
                          feedback = ''Logical order followed''\<rparr>,
                        \<lparr>name = ''Speech Rate (WPM)'', weight = 10, score = speech_rate_score,
                          feedback = ''Ideal rate''\<rparr>,
                        \<lparr>name = ''Grammar'', weight = 10, score = grammar_score,
                          feedback = ''Minor errors''\<rparr>,
                        \<lparr>name = ''Vocabulary Richness'', weight = 10, score = vocabulary_score,
                          feedback = ''Moderate diversity''\<rparr>,
                        \<lparr>name = ''Filler Word Rate'', weight = 15, score = filler_score,
                          feedback = ''Few filler words''\<rparr>,
                        \<lparr>name = ''Sentiment/Positivity'', weight = 15, score = sentiment_score,
                          feedback = ''Positive tone''\<rparr>]\<rparr>))"

subsection \<open>Speech rate\<close>

text \<open>\<open>compute_speech_rate(words, duration_sec)\<close>: \<open>None\<close> is the absent duration.\<close>

definition compute_speech_rate :: "int \<Rightarrow> rat option \<Rightarrow> exn + (int \<times> rat \<times> string)" where
  "compute_speech_rate n_words duration_sec =
     (case duration_sec of
        None \<Rightarrow> Inr (10, 120, ''Duration not provided; assumed ideal speech rate.'')
      | Some d \<Rightarrow>
          if d \<le> 0 then Inr (10, 120, ''Duration not provided; assumed ideal speech rate.'')
          else and_then (truediv (of_int n_words) d)
            (\<lambda>q. let w = q * 60
                 in if w > 161 then Inr (2, w, ''Too fast.'')
                    else if 141 \<le> w \<and> w \<le> 160 then Inr (6, w, ''Fast.'')
                    else if 111 \<le> w \<and> w \<le> 140 then Inr (10, w, ''Ideal.'')
                    else if 81 \<le> w \<and> w \<le> 110 then Inr (6, w, ''Slow.'')
                    else Inr (2, w, ''Too slow.'')))"

subsection \<open>The pattern tables\<close>

text \<open>The module's dictionaries, as association lists in the order of the source (a
  Python \<open>dict\<close> iterates in insertion order).\<close>

text \<open>\<open>FILLER_WORDS\<close> is a \<open>set\<close> in the source; its only uses are the membership test
  and a loop that adds up counts, for which the order of the elements does not matter.\<close>

definition FILLER_WORDS :: "string list" where
  "FILLER_WORDS =
     [''um'', ''uh'', ''like'', ''you know'', ''so'', ''actually'', ''basically'', ''right'',
      ''i mean'', ''well'', ''kinda'', ''sort of'', ''okay'', ''hmm'', ''ah'']"

definition SALUTATION_PATTERNS :: "(string \<times> rx list) list" where
  "SALUTATION_PATTERNS =
     [(''excellent'',
        [cat [Bnd,
              alt [cat [Lit ''i am '', alt [Lit ''excited'', Lit ''thrilled'']],
                   Lit ''feeling great''],
              Bnd]]),
      (''good'',
        [cat [Bnd, Lit ''good '',
              alt [Lit ''morning'', Lit ''afternoon'', Lit ''evening'', Lit ''day''], Bnd],
         whole [''hello everyone'']]),
      (''normal'', [whole [''hi''], whole [''hello'']])]"

definition MUST_HAVE_KEYS :: "(string \<times> rx list) list" where
  "MUST_HAVE_KEYS =
     [(''name'', [whole [''my name is''], whole [''myself''], whole [''i am'']]),
      (''age'',
        [cat [Bnd, Rep CDigit 1 (Some 2), Rep CSpace 0 None, Lit ''year'', Opt (Lit ''s''),
              Rep CSpace 0 None, Lit ''old'', Bnd]]),
      (''school_class'',
        [cat [Bnd, Lit ''class'', Rep CSpace 1 None, Rep CWord 1 None, Bnd],
         whole [''school'']]),
      (''family'',
        [whole [''family''], whole [''father''], whole [''mother''], whole [''sister''],
         whole [''brother'']]),
      (''hobbies'',
        [whole [''hobby'', ''hobbies'', ''like to'', ''enjoy'', ''favorite'', ''favourite'']])]"

definition GOOD_TO_HAVE_KEYS :: "(string \<times> rx list) list" where
  "GOOD_TO_HAVE_KEYS =
     [(''about_family'',
        [cat [Bnd,
              alt [cat [Lit ''kind'', Rep (COneOf ''- '') 0 (Some 1), Lit ''hearted''],
                   cat [Lit ''soft'', Rep (COneOf ''- '') 0 (Some 1), Lit ''spoken'']],
              Bnd]]),
      (''origin_location'',
        [whole [''i am from''], whole [''we are from''], whole [''parents are from'']]),
      (''ambition_goal'', [whole [''ambition'', ''goal'', ''dream'', ''aspiration'']]),
      (''interesting_unique'', [whole [''fun fact'', ''unique'', ''interesting'']]),
      (''strengths_achievements'',
        [whole [''strength'', ''achievement'', ''award'', ''ranked'', ''won'']])]"

text \<open>\<open>d[key]\<close> for a key of the literal; the source uses no other key.\<close>

definition patterns_of :: "(string \<times> rx list) list \<Rightarrow> string \<Rightarrow> rx list" where
  "patterns_of d key = (case map_of d key of None \<Rightarrow> [] | Some pats \<Rightarrow> pats)"

subsection \<open>Salutation\<close>

definition compute_salutation_score :: "string \<Rightarrow> int \<times> string" where
  "compute_salutation_score text =
     (let t = strip (lower text)
      in if list_ex (matches t) (patterns_of SALUTATION_PATTERNS ''excellent'')
           then (5, ''Excellent salutation detected.'')
         else if list_ex (matches t) (patterns_of SALUTATION_PATTERNS ''good'')
           then (4, ''Good salutation detected.'')
         else if list_ex (matches t) (patterns_of SALUTATION_PATTERNS ''normal'')
           then (2, ''Normal salutation detected.'')
         else (0, ''No salutation found.''))"

subsection \<open>Keyword presence\<close>

text \<open>One of the two loops of \<open>compute_keyword_presence\<close>: over the items of a table,
  with \<open>pts\<close> points for a key that is present. The state is the score so far and the
  flags so far (a \<open>dict\<close> filled in the order of the table).\<close>

fun scan_keys ::
  "int \<Rightarrow> string \<Rightarrow> (string \<times> rx list) list \<Rightarrow> int \<times> (string \<times> bool) list
     \<Rightarrow> int \<times> (string \<times> bool) list" where
  "scan_keys pts t [] acc = acc"
| "scan_keys pts t ((key, pats) # rest) (sc, flags) =
     (let present = list_ex (matches t) pats
      in scan_keys pts t rest ((if present then sc + pts else sc), flags @ [(key, present)]))"

definition must_have :: "string \<Rightarrow> int \<times> (string \<times> bool) list" where
  "must_have text = scan_keys 4 (lower text) MUST_HAVE_KEYS (0, [])"

definition good_have :: "string \<Rightarrow> int \<times> (string \<times> bool) list" where
  "good_have text = scan_keys 2 (lower text) GOOD_TO_HAVE_KEYS (0, [])"

definition compute_keyword_presence ::
  "string \<Rightarrow> int \<times> (string \<times> bool) list \<times> (string \<times> bool) list" where
  "compute_keyword_presence text =
     (let (must_have_score, must_flags) = must_have text;
          (good_have_score, good_flags) = good_have text;
          total = must_have_score + good_have_score
      in (total, must_flags, good_flags))"

subsection \<open>Flow order\<close>

text \<open>The age pattern of \<open>compute_order_flow\<close>, which has no word boundaries.\<close>

definition AGE_IN_FLOW :: rx where
  "AGE_IN_FLOW =
     cat [Rep CDigit 1 (Some 2), Rep CSpace 0 None, Lit ''year'', Opt (Lit ''s''),
          Rep CSpace 0 None, Lit ''old'']"

text \<open>\<open>min\<close> and \<open>max\<close> of a list with a first element.\<close>

definition min_of :: "int \<Rightarrow> int list \<Rightarrow> int" where
  "min_of x xs = fold min xs x"

definition max_of :: "int \<Rightarrow> int list \<Rightarrow> int" where
  "max_of x xs = fold max xs x"

text \<open>\<open>compute_order_flow\<close>. The test \<open>basic_idxs\<close> of the source (a list is true when
  it is not empty) is the case distinction on the list, so \<open>min(basic_idxs)\<close> is only
  taken of a list with a first element.\<close>

definition compute_order_flow :: "string \<Rightarrow> int \<times> string" where
  "compute_order_flow text =
     (let t = lower text;
          idx_sal = min_of (find t ''hello everyone'') [find t ''hello '', find t ''hi ''];
          idx_name = min_of (find t ''my name is'') [find t ''myself '', find t ''i am ''];
          idx_school = find t ''school'';
          idx_class = find t ''class'';
          idx_age = re_search AGE_IN_FLOW t;
          idx_place = max_of (find t ''i am from'') [find t ''parents are from''];
          idx_additional =
            max_of (find t ''fun fact'')
              [find t ''unique'', find t ''interesting'', find t ''enjoy'', find t ''favorite'',
               find t ''favourite''];
          idx_close = find t ''thank you'';
          basic_idxs =
            filter (\<lambda>i. i \<ge> 0)
              [idx_name, (case idx_age of None \<Rightarrow> - 1 | Some i \<Rightarrow> i), idx_school, idx_class,
               idx_place]
      in case basic_idxs of
           [] \<Rightarrow> (0, ''Order not followed.'')
         | b # bs \<Rightarrow>
             if idx_sal \<ge> 0 \<and> idx_additional \<ge> 0 \<and> idx_close \<ge> 0 then
               (let valid = (idx_sal \<le> min_of b bs \<and> min_of b bs \<le> idx_additional
                             \<and> idx_additional \<le> idx_close)
                in (if valid then 5 else 0,
                    if valid then ''Order followed.'' else ''Order not followed.''))
             else (0, ''Order not followed.''))"

subsection \<open>The external capabilities\<close>

text \<open>
  \<^item> \<open>LT_AVAILABLE\<close>: whether \<open>import language_tool_python\<close> succeeded.
  \<^item> \<open>LanguageTool\<close>: what \<open>language_tool_python.LanguageTool('en-US')\<close> does: it raises,
    or it returns a tool; the tool is its method \<open>check\<close>, which on a text raises or
    returns matches, of which the source takes the number.
  \<^item> \<open>LexicalRichness\<close>: what \<open>LexicalRichness(text)\<close> does: it raises, or it returns an
    object; the object is what reading its property \<open>ttr\<close> does, raise or return a ratio.
\<close>

record capabilities =
  LT_AVAILABLE :: bool
  LanguageTool :: "exn + (string \<Rightarrow> exn + nat)"
  LexicalRichness :: "string \<Rightarrow> exn + (exn + rat)"

subsection \<open>Grammar\<close>

text \<open>\<open>\\s{2,}\<close> and \<open>\\b(\\w+)\\s+\\1\\b\<close>, the two patterns of the fallback heuristic.\<close>

definition WIDE_SPACE :: rx where
  "WIDE_SPACE = Rep CSpace 2 None"

definition REPEATED_WORD :: rx where
  "REPEATED_WORD = cat [Bnd, Grp (Rep CWord 1 None), Rep CSpace 1 None, Back, Bnd]"

definition grammar_band :: "rat \<Rightarrow> int \<times> rat \<times> string" where
  "grammar_band raw =
     (if raw > 9 / 10 then (10, raw, ''Excellent grammar.'')
      else if 7 / 10 \<le> raw \<and> raw \<le> 89 / 100 then (8, raw, ''Good grammar.'')
      else if 5 / 10 \<le> raw \<and> raw \<le> 69 / 100 then (6, raw, ''Fair grammar.'')
      else if 3 / 10 \<le> raw \<and> raw \<le> 49 / 100 then (4, raw, ''Poor grammar.'')
      else (2, raw, ''Very poor grammar.''))"

text \<open>The body of the \<open>try\<close> block of \<open>compute_grammar_score\<close>: its value is \<open>raw\<close>.\<close>

definition grammar_raw :: "capabilities \<Rightarrow> string \<Rightarrow> int \<Rightarrow> exn + rat" where
  "grammar_raw caps text n_words =
     and_then
       (if LT_AVAILABLE caps then
          and_then (LanguageTool caps)
            (\<lambda>tool. and_then (tool text) (\<lambda>n_matches. Inr (int n_matches)))
        else Inr (0 + findall_count WIDE_SPACE text + findall_count REPEATED_WORD (lower text)))
       (\<lambda>errors. and_then (truediv (of_int errors) (of_int n_words))
          (\<lambda>q. let errors_per_100 = q * 100 in Inr (1 - min (errors_per_100 / 10) 1)))"

definition compute_grammar_score :: "capabilities \<Rightarrow> string \<Rightarrow> exn + (int \<times> rat \<times> string)" where
  "compute_grammar_score caps text =
     (let n_words = or_1 (int (length (word_list text)))
      in and_then (try_except (grammar_raw caps text n_words) (\<lambda>e. Inr (7 / 10)))
           (\<lambda>raw. Inr (grammar_band raw)))"

subsection \<open>Vocabulary richness\<close>

definition ttr_band :: "rat \<Rightarrow> int \<times> rat \<times> string" where
  "ttr_band ttr =
     (if 9 / 10 \<le> ttr \<and> ttr \<le> 1 then (10, ttr, ''Excellent lexical diversity.'')
      else if 7 / 10 \<le> ttr \<and> ttr \<le> 89 / 100 then (8, ttr, ''Good lexical diversity.'')
      else if 5 / 10 \<le> ttr \<and> ttr \<le> 69 / 100 then (6, ttr, ''Fair lexical diversity.'')
      else if 3 / 10 \<le> ttr \<and> ttr \<le> 49 / 100 then (4, ttr, ''Poor lexical diversity.'')
      else (2, ttr, ''Very poor lexical diversity.''))"

text \<open>The handler of \<open>compute_ttr_score\<close>: distinct tokens over tokens.\<close>

definition ttr_fallback :: "string \<Rightarrow> exn + rat" where
  "ttr_fallback text =
     (let wl = word_list text;
          distinct_n = int (length (remdups wl));
          total = or_1 (int (length wl))
      in truediv (of_int distinct_n) (of_int total))"

text \<open>\<open>compute_ttr_score\<close>: the constructor is called before the \<open>try\<close> block, the
  property is read inside it.\<close>

definition compute_ttr_score :: "capabilities \<Rightarrow> string \<Rightarrow> exn + (int \<times> rat \<times> string)" where
  "compute_ttr_score caps text =
     and_then (LexicalRichness caps text)
       (\<lambda>lex. and_then (try_except lex (\<lambda>e. ttr_fallback text))
          (\<lambda>ttr. Inr (ttr_band ttr)))"

subsection \<open>Filler-word rate\<close>

text \<open>The two counting loops of \<open>compute_filler_rate_score\<close>.\<close>

definition phrase_count :: "string \<Rightarrow> int" where
  "phrase_count t_lower =
     fold (\<lambda>fw n. if CHR '' '' \<in> set fw then n + count_str t_lower fw else n) FILLER_WORDS 0"

definition token_count :: "string list \<Rightarrow> int \<Rightarrow> int" where
  "token_count wl n0 = fold (\<lambda>w n. if w \<in> set FILLER_WORDS then n + 1 else n) wl n0"


text \<open>\<open>compute_filler_rate_score\<close>. The source ends after the \<open>return\<close> of the first
  band: for any other rate the body runs to its end and the call returns \<open>None\<close>, which
  is the \<open>None\<close> of the result here.\<close>

definition compute_filler_rate_score :: "string \<Rightarrow> exn + (int \<times> rat \<times> string) option" where
  "compute_filler_rate_score text =
     (let wl = word_list text;
          total = or_1 (int (length wl));
          t_lower = join_space wl;
          n = token_count wl (phrase_count t_lower)
      in and_then (truediv (of_int n) (of_int total))
           (\<lambda>q. let rate = q * 100
                in if 0 \<le> rate \<and> rate \<le> 3 then Inr (Some (15, rate, ''Clear'')) else Inr None))"

text \<open>The value of the variable \<open>rate\<close> of \<open>compute_filler_rate_score\<close>, for the
  statements about it.\<close>

definition filler_rate :: "string \<Rightarrow> rat" where
  "filler_rate text =
     (let wl = word_list text
      in of_int (token_count wl (phrase_count (join_space wl)))
           / of_int (or_1 (int (length wl))) * 100)"

text \<open>``The token list contains a multi-word filler phrase'', read on tokens: the words
  of a filler phrase with a space are consecutive tokens. This is the reading of the
  specification's wording, for comparison with the count of the source, which looks for
  the phrase as a substring of the joined tokens (\<open>phrase_count\<close>).\<close>

fun tokens_at :: "string list \<Rightarrow> string list \<Rightarrow> bool" where
  "tokens_at ws [] = True"
| "tokens_at [] (p # ps) = False"
| "tokens_at (w # ws) (p # ps) = (w = p \<and> tokens_at ws ps)"

fun phrase_in_tokens :: "string list \<Rightarrow> string list \<Rightarrow> bool" where
  "phrase_in_tokens [] ps = (ps = [])"
| "phrase_in_tokens (w # ws) ps = (tokens_at (w # ws) ps \<or> phrase_in_tokens ws ps)"

definition has_filler_phrase :: "string list \<Rightarrow> bool" where
  "has_filler_phrase wl =
     list_ex (\<lambda>fw. CHR '' '' \<in> set fw \<and> phrase_in_tokens wl (split_ws fw)) FILLER_WORDS"

section \<open>Properties\<close>

subsection \<open>Auxiliary facts\<close>

lemma and_then_Inr: "and_then (Inr v) f = f v"
  by (simp add: and_then_def)

lemma and_then_Inl: "and_then (Inl e) f = Inl e"
  by (simp add: and_then_def)

lemma try_except_total: "\<exists>v. try_except body (\<lambda>e. Inr d) = Inr v"
  by (cases body) (simp_all add: try_except_def)

lemma try_except_Inl: "try_except (Inl e) h = h e"
  by (simp add: try_except_def)

lemma round2_81: "round2 81 = 81"
  by (simp add: round2_def round_half_even_def)

lemma or_1_nonzero: "rat_of_int (or_1 (int n)) \<noteq> 0"
  by (simp add: or_1_def)

lemma word_list_empty: "word_list '''' = []"
  by (simp add: word_list_def lower_def)

subsection \<open>The entry point\<close>

text \<open>The scores of the report do not depend on the input.\<close>

lemma score_transcript_scores:
  "\<exists>r. score_transcript transcript duration_sec = Inr r
     \<and> map score (criteria r) = [4, 24, 5, 10, 8, 6, 12, 12]"
  by (cases duration_sec) (simp_all add: score_transcript_def and_then_def truediv_def Let_def)

text \<open>
  C1. The claim is that the 8 scores of the report are the scores of the eight
  evaluators on the same input. The code does otherwise: for every transcript and
  duration the scores are the constants 4, 24, 5, 10, 8, 6, 12, 12, while on the empty
  transcript the salutation, keyword and flow evaluators each give 0.
\<close>

theorem score_transcript_constant_scores:
  "(\<forall>transcript duration_sec. \<exists>r. score_transcript transcript duration_sec = Inr r
       \<and> map score (criteria r) = [4, 24, 5, 10, 8, 6, 12, 12])
   \<and> fst (compute_salutation_score '''') = 0
   \<and> fst (compute_keyword_presence '''') = 0
   \<and> fst (compute_order_flow '''') = 0"
proof -
  have b: "fst (compute_salutation_score '''') = 0" by code_simp
  have c: "fst (compute_keyword_presence '''') = 0" by code_simp
  have d: "fst (compute_order_flow '''') = 0" by code_simp
  from score_transcript_scores b c d show ?thesis by blast
qed

text \<open>
  C2. For every transcript and every duration, \<open>score_transcript\<close> returns a report with
  exactly 8 criteria whose weights are 5, 30, 5, 10, 10, 10, 15, 15 and sum to 100; the
  score of every criterion lies between 0 and its weight; \<open>overall_score\<close> is the sum of
  the 8 scores rounded to 2 decimals, and lies between 0 and 100.
\<close>

theorem score_transcript_invariants:
  "\<exists>r. score_transcript transcript duration_sec = Inr r
     \<and> length (criteria r) = 8
     \<and> map weight (criteria r) = [5, 30, 5, 10, 10, 10, 15, 15]
     \<and> sum_list (map weight (criteria r)) = 100
     \<and> list_all (\<lambda>c. 0 \<le> score c \<and> score c \<le> weight c) (criteria r)
     \<and> overall_score r = round2 (of_int (sum_list (map score (criteria r))))
     \<and> 0 \<le> overall_score r \<and> overall_score r \<le> 100"
proof (cases "duration_sec = None \<or> duration_sec = Some 0")
  case True
  then show ?thesis
    by (auto simp add: score_transcript_def and_then_def Let_def round2_81)
next
  case False
  then obtain d where d: "duration_sec = Some d" "d \<noteq> 0"
    by (cases duration_sec) auto
  then show ?thesis
    by (simp add: score_transcript_def and_then_def truediv_def Let_def round2_81)
qed

subsection \<open>Keyword presence\<close>

text \<open>Each loop adds its points once per key that is present, and records one flag per
  key of its table, in the order of the table.\<close>

lemma scan_keys_shape:
  "\<exists>new. scan_keys pts t ks (sc, fl) = (sc + pts * int (length (filter snd new)), fl @ new)
       \<and> map fst new = map fst ks"
proof (induction ks arbitrary: sc fl)
  case Nil
  have "scan_keys pts t [] (sc, fl) = (sc + pts * int (length (filter snd [])), fl @ [])
      \<and> map fst ([] :: (string \<times> bool) list) = map fst ([] :: (string \<times> rx list) list)"
    by simp
  then show ?case by blast
next
  case (Cons k ks)
  obtain key pats where k: "k = (key, pats)" by (cases k)
  define present where "present = list_ex (matches t) pats"
  define sc' where "sc' = (if present then sc + pts else sc)"
  obtain new where new:
    "scan_keys pts t ks (sc', fl @ [(key, present)]) =
       (sc' + pts * int (length (filter snd new)), (fl @ [(key, present)]) @ new)"
    "map fst new = map fst ks"
    using Cons.IH [of sc' "fl @ [(key, present)]"] by blast
  have "scan_keys pts t (k # ks) (sc, fl) =
      (sc + pts * int (length (filter snd ((key, present) # new))), fl @ ((key, present) # new))"
    using new(1) by (simp add: k present_def sc'_def Let_def algebra_simps)
  moreover have "map fst ((key, present) # new) = map fst (k # ks)"
    using new(2) by (simp add: k)
  ultimately show ?case by blast
qed

lemma keyword_presence_points:
  "case compute_keyword_presence text of
     (points, must_flags, good_flags) \<Rightarrow>
       points = 4 * int (length (filter snd must_flags)) + 2 * int (length (filter snd good_flags))
       \<and> map fst must_flags = [''name'', ''age'', ''school_class'', ''family'', ''hobbies'']"
proof -
  obtain mf where mf: "must_have text = (4 * int (length (filter snd mf)), mf)"
    "map fst mf = map fst MUST_HAVE_KEYS"
    using scan_keys_shape [of 4 "lower text" MUST_HAVE_KEYS 0 "[]"]
    by (auto simp add: must_have_def)
  obtain gf where gf: "good_have text = (2 * int (length (filter snd gf)), gf)"
    using scan_keys_shape [of 2 "lower text" GOOD_TO_HAVE_KEYS 0 "[]"]
    by (auto simp add: good_have_def)
  have "map fst MUST_HAVE_KEYS = [''name'', ''age'', ''school_class'', ''family'', ''hobbies'']"
    by (simp add: MUST_HAVE_KEYS_def)
  with mf gf show ?thesis
    by (simp add: compute_keyword_presence_def)
qed

lemma keyword_presence_asha_value:
  "compute_keyword_presence
     ''my name is Asha, I am 10 years old, I study in Class 5, I love painting'' =
     (12,
      [(''name'', True), (''age'', True), (''school_class'', True), (''family'', False),
       (''hobbies'', False)],
      [(''about_family'', False), (''origin_location'', False), (''ambition_goal'', False),
       (''interesting_unique'', False), (''strengths_achievements'', False)])"
  by code_simp

text \<open>
  C3, as stated, fails: on the transcript ``my name is Asha, I am 10 years old, I study in
  Class 5, I love painting'' the flag \<open>hobbies\<close> is false, since none of hobby, hobbies,
  like to, enjoy, favorite, favourite occurs in it.
\<close>

theorem keyword_presence_asha_hobbies:
  "map_of (fst (snd (compute_keyword_presence
     ''my name is Asha, I am 10 years old, I study in Class 5, I love painting'')))
     ''hobbies'' = Some False"
  by (simp add: keyword_presence_asha_value)

text \<open>
  C3, amended. On that transcript \<open>compute_keyword_presence\<close> sets the must-have flags
  name, age and school\_class to true and family and hobbies to false, sets no
  good-to-have flag, and returns the score 12. For every transcript the score is 4
  points per true must-have flag plus 2 points per true good-to-have flag, so a
  must-have key contributes 4 when its flag is true and 0 when it is false.
\<close>

theorem keyword_presence_asha:
  "compute_keyword_presence
     ''my name is Asha, I am 10 years old, I study in Class 5, I love painting'' =
     (12,
      [(''name'', True), (''age'', True), (''school_class'', True), (''family'', False),
       (''hobbies'', False)],
      [(''about_family'', False), (''origin_location'', False), (''ambition_goal'', False),
       (''interesting_unique'', False), (''strengths_achievements'', False)])
   \<and> (case compute_keyword_presence text of
        (points, must_flags, good_flags) \<Rightarrow>
          points = 4 * int (length (filter snd must_flags))
                   + 2 * int (length (filter snd good_flags))
          \<and> map fst must_flags = [''name'', ''age'', ''school_class'', ''family'', ''hobbies''])"
  using keyword_presence_asha_value keyword_presence_points [of "text"]
  by (rule conjI)

subsection \<open>Flow order\<close>

text \<open>The minimum of a list of \<open>find\<close> results is negative as soon as one of them is:
  a marker group located with \<open>min\<close> is present only when each of its markers is.\<close>

lemma min_of_le: "min_of x xs \<le> x"
  unfolding min_of_def
proof (induction xs arbitrary: x)
  case Nil
  show ?case by simp
next
  case (Cons y ys)
  have "fold min ys (min y x) \<le> min y x" by (rule Cons.IH)
  then show ?case by simp
qed

lemma min_of_le_member: "y \<in> set xs \<Longrightarrow> min_of x xs \<le> y"
  unfolding min_of_def
proof (induction xs arbitrary: x)
  case Nil
  then show ?case by simp
next
  case (Cons z zs)
  show ?case
  proof (cases "y = z")
    case True
    have "fold min zs (min z x) \<le> min z x"
      using min_of_le [of "min z x" zs] by (simp add: min_of_def)
    with True show ?thesis by simp
  next
    case False
    with Cons.prems have "y \<in> set zs" by simp
    then have "fold min zs (min z x) \<le> y" by (rule Cons.IH)
    then show ?thesis by simp
  qed
qed

lemma order_flow_needs_every_salutation:
  assumes "find (lower text) ''hello everyone'' < 0 \<or> find (lower text) ''hello '' < 0
           \<or> find (lower text) ''hi '' < 0"
  shows "compute_order_flow text = (0, ''Order not followed.'')"
proof -
  have "min_of (find (lower text) ''hello everyone'')
          [find (lower text) ''hello '', find (lower text) ''hi ''] < 0"
    using assms
      min_of_le [of "find (lower text) ''hello everyone''"
        "[find (lower text) ''hello '', find (lower text) ''hi '']"]
      min_of_le_member [of "find (lower text) ''hello ''"
        "[find (lower text) ''hello '', find (lower text) ''hi '']"
        "find (lower text) ''hello everyone''"]
      min_of_le_member [of "find (lower text) ''hi ''"
        "[find (lower text) ''hello '', find (lower text) ''hi '']"
        "find (lower text) ''hello everyone''"]
    by auto
  then show ?thesis
    by (simp add: compute_order_flow_def Let_def split: list.split)
qed

text \<open>The evaluator does return 5, on a transcript that has every salutation and name
  marker, and 0 when the same parts are in another order.\<close>

lemma order_flow_every_marker:
  "compute_order_flow
     ''Hi all, hello everyone. Myself Asha, my name is Asha and I am 10 years old. Fun fact: I can juggle. Thank you''
   = (5, ''Order followed.'')"
  by code_simp

lemma order_flow_scrambled:
  "compute_order_flow
     ''Thank you. Fun fact: I can juggle. Myself Asha, my name is Asha and I am 10 years old. Hi all, hello everyone''
   = (0, ''Order not followed.'')"
  by code_simp

text \<open>
  C4. The claim is that a transcript with a salutation first, then name and age, then
  ``fun fact'', then ``thank you'' scores 5. The code scores 0 on such a transcript:
  \<open>idx_sal\<close> is the minimum of three \<open>find\<close> results, so it is \<open>-1\<close> as soon as one of
  ``hello everyone'', ``hello '' and ``hi '' is absent (here ``hi '').
\<close>

theorem order_flow_ordered_transcript:
  "compute_order_flow
     ''Hello everyone, my name is Asha. I am 10 years old. Fun fact: I can juggle. Thank you''
   = (0, ''Order not followed.'')"
  by code_simp

subsection \<open>Speech rate\<close>

lemma compute_speech_rate_total: "\<exists>r. compute_speech_rate n duration_sec = Inr r"
proof (cases duration_sec)
  case None
  then show ?thesis by (simp add: compute_speech_rate_def)
next
  case (Some d)
  show ?thesis
  proof (cases "d \<le> 0")
    case True
    with Some show ?thesis by (simp add: compute_speech_rate_def)
  next
    case False
    then have "truediv (of_int n) d = Inr (of_int n / d)"
      by (simp add: truediv_def)
    with Some False show ?thesis
      by (simp add: compute_speech_rate_def and_then_Inr Let_def)
  qed
qed

text \<open>An absent, zero or negative duration gives the fixed result of the evaluator;
  the entry point reports 120 for an absent or zero duration.\<close>

lemma compute_speech_rate_no_duration:
  "duration_sec = None \<or> (\<exists>d. duration_sec = Some d \<and> d \<le> 0) \<Longrightarrow>
   compute_speech_rate n duration_sec =
     Inr (10, 120, ''Duration not provided; assumed ideal speech rate.'')"
  by (auto simp add: compute_speech_rate_def)

lemma score_transcript_no_duration:
  "duration_sec = None \<or> duration_sec = Some 0 \<Longrightarrow>
   \<exists>r. score_transcript transcript duration_sec = Inr r \<and> wpm r = 120"
  by (auto simp add: score_transcript_def and_then_def Let_def)

text \<open>The bands of the evaluator for a positive duration, as the code tests them.\<close>

lemma compute_speech_rate_bands:
  assumes "0 < d"
  shows "compute_speech_rate n (Some d) =
     (let w = of_int n / d * 60
      in if 161 < w then Inr (2, w, ''Too fast.'')
         else if 141 \<le> w \<and> w \<le> 160 then Inr (6, w, ''Fast.'')
         else if 111 \<le> w \<and> w \<le> 140 then Inr (10, w, ''Ideal.'')
         else if 81 \<le> w \<and> w \<le> 110 then Inr (6, w, ''Slow.'')
         else Inr (2, w, ''Too slow.''))"
proof -
  have "truediv (of_int n) d = Inr (of_int n / d)"
    using assms by (simp add: truediv_def)
  then show ?thesis
    using assms unfolding compute_speech_rate_def
    by (simp only: option.case and_then_def sum.case Let_def not_le [symmetric] if_False)
qed

lemma speech_rate_examples:
  "compute_speech_rate 150 (Some 60) = Inr (6, 150, ''Fast.'')"
  "compute_speech_rate 125 (Some 60) = Inr (10, 125, ''Ideal.'')"
  "compute_speech_rate 100 (Some 30) = Inr (2, 200, ''Too fast.'')"
  "compute_speech_rate 100 (Some 60) = Inr (6, 100, ''Slow.'')"
  "compute_speech_rate 80 (Some 60) = Inr (2, 80, ''Too slow.'')"
  by (simp_all add: compute_speech_rate_def and_then_def truediv_def)

text \<open>
  C5. The claim is that the last branch (score 2, ``Too slow.'') is taken exactly when
  the rate is at most 80. The code takes it for 321 words in 120 seconds, a rate of
  160.5 words per minute, which lies between the bands 141 to 160 and above 161, and
  for 161 words in 60 seconds, a rate of exactly 161.
\<close>

theorem speech_rate_gap:
  "compute_speech_rate 321 (Some 120) = Inr (2, 321 / 2, ''Too slow.'')
   \<and> compute_speech_rate 161 (Some 60) = Inr (2, 161, ''Too slow.'')"
  by (simp add: compute_speech_rate_def and_then_def truediv_def)

text \<open>
  C6. The claim is that a negative duration is treated as absent by the evaluator and by
  the entry point. \<open>compute_speech_rate\<close> does so; \<open>score_transcript\<close> divides by the
  duration: one word in -1 seconds is reported as -60 words per minute.
\<close>

theorem negative_duration:
  "compute_speech_rate 1 (Some (- 1)) =
     Inr (10, 120, ''Duration not provided; assumed ideal speech rate.'')
   \<and> (\<exists>r. score_transcript ''hello'' (Some (- 1)) = Inr r \<and> wpm r = - 60)"
  by (simp add: compute_speech_rate_def score_transcript_def and_then_def truediv_def Let_def
      round2_def round_half_even_def split_ws_def is_space_def)

subsection \<open>Grammar and vocabulary: exceptions of the capabilities\<close>

lemma grammar_band_default: "grammar_band (7 / 10) = (8, 7 / 10, ''Good grammar.'')"
  by (simp add: grammar_band_def)

text \<open>\<open>compute_grammar_score\<close> returns on every input, whatever the capabilities do.\<close>

lemma compute_grammar_score_total: "\<exists>r. compute_grammar_score caps text = Inr r"
proof -
  obtain v where "try_except (grammar_raw caps text (or_1 (int (length (word_list text)))))
      (\<lambda>e. Inr (7 / 10)) = Inr v"
    using try_except_total [of "grammar_raw caps text (or_1 (int (length (word_list text))))" "7 / 10"]
    by blast
  then have "compute_grammar_score caps text = Inr (grammar_band v)"
    by (simp add: compute_grammar_score_def Let_def and_then_Inr)
  then show ?thesis by blast
qed

lemma compute_grammar_score_fallback:
  assumes "grammar_raw caps text (or_1 (int (length (word_list text)))) = Inl e"
  shows "compute_grammar_score caps text = Inr (8, 7 / 10, ''Good grammar.'')"
  using assms
  by (simp add: compute_grammar_score_def Let_def try_except_Inl and_then_Inr grammar_band_default)

lemma grammar_raw_tool_raises:
  "LT_AVAILABLE caps \<Longrightarrow> LanguageTool caps = Inl e \<Longrightarrow> grammar_raw caps text n = Inl e"
  by (simp add: grammar_raw_def and_then_Inl)

lemma grammar_raw_check_raises:
  "LT_AVAILABLE caps \<Longrightarrow> LanguageTool caps = Inr tool \<Longrightarrow> tool text = Inl e
     \<Longrightarrow> grammar_raw caps text n = Inl e"
  by (simp add: grammar_raw_def and_then_Inl and_then_Inr)

lemma ttr_fallback_value:
  "ttr_fallback text =
     Inr (of_int (int (length (remdups (word_list text))))
            / of_int (or_1 (int (length (word_list text)))))"
  using or_1_nonzero [of "length (word_list text)"]
  by (simp add: ttr_fallback_def Let_def truediv_def)

lemma compute_ttr_score_fallback:
  assumes "LexicalRichness caps text = Inr (Inl e)"
  shows "compute_ttr_score caps text =
     Inr (ttr_band (of_int (int (length (remdups (word_list text))))
                     / of_int (or_1 (int (length (word_list text))))))"
  using assms by (simp add: compute_ttr_score_def and_then_Inr try_except_Inl ttr_fallback_value)

lemma compute_ttr_score_constructed:
  assumes "LexicalRichness caps text = Inr obj"
  shows "\<exists>r. compute_ttr_score caps text = Inr r"
proof (cases obj)
  case (Inl e)
  with assms show ?thesis
    using compute_ttr_score_fallback [of caps _ e] by blast
next
  case (Inr v)
  with assms have "compute_ttr_score caps text = Inr (ttr_band v)"
    by (simp add: compute_ttr_score_def and_then_Inr try_except_def)
  then show ?thesis by blast
qed

lemma word_list_aba: "word_list ''a b a'' = [''a'', ''b'', ''a'']"
  by code_simp

text \<open>
  C7, as stated, fails: \<open>compute_ttr_score\<close> calls the constructor \<open>LexicalRichness(text)\<close>
  before its \<open>try\<close> block, so an exception of the constructor leaves the evaluator.
\<close>

theorem ttr_constructor_raises:
  "compute_ttr_score
     \<lparr>LT_AVAILABLE = False, LanguageTool = Inl (CapabilityError ''unavailable''),
      LexicalRichness = (\<lambda>t. Inl (CapabilityError ''constructor''))\<rparr> ''hello''
   = Inl (CapabilityError ''constructor'')"
  by (simp add: compute_ttr_score_def and_then_Inl)

text \<open>
  C7, amended. For every transcript and all capabilities: \<open>compute_grammar_score\<close> always
  returns a result; when the grammar checker is available and its construction or its
  \<open>check\<close> raises, the result is the fallback (quality 0.7, score 8, ``Good grammar.'').
  When the constructor \<open>LexicalRichness(text)\<close> returns, \<open>compute_ttr_score\<close> returns a
  result; when reading \<open>ttr\<close> then raises, the ratio is distinct over total of the
  \<open>word_list\<close> tokens, the total taken as 1 when it is 0.
\<close>

theorem capability_exceptions:
  "(\<exists>r. compute_grammar_score caps text = Inr r)
   \<and> (LT_AVAILABLE caps \<and> LanguageTool caps = Inl e
        \<longrightarrow> compute_grammar_score caps text = Inr (8, 7 / 10, ''Good grammar.''))
   \<and> (LT_AVAILABLE caps \<and> LanguageTool caps = Inr tool \<and> tool text = Inl e
        \<longrightarrow> compute_grammar_score caps text = Inr (8, 7 / 10, ''Good grammar.''))
   \<and> (LexicalRichness caps text = Inr obj \<longrightarrow> (\<exists>r. compute_ttr_score caps text = Inr r))
   \<and> (LexicalRichness caps text = Inr (Inl e')
        \<longrightarrow> compute_ttr_score caps text =
              Inr (ttr_band (of_int (int (length (remdups (word_list text))))
                              / of_int (or_1 (int (length (word_list text)))))))"
proof (intro conjI impI)
  show "\<exists>r. compute_grammar_score caps text = Inr r"
    by (rule compute_grammar_score_total)
next
  assume "LT_AVAILABLE caps \<and> LanguageTool caps = Inl e"
  then show "compute_grammar_score caps text = Inr (8, 7 / 10, ''Good grammar.'')"
    by (intro compute_grammar_score_fallback [of _ _ e] grammar_raw_tool_raises) simp_all
next
  assume "LT_AVAILABLE caps \<and> LanguageTool caps = Inr tool \<and> tool text = Inl e"
  then show "compute_grammar_score caps text = Inr (8, 7 / 10, ''Good grammar.'')"
    by (intro compute_grammar_score_fallback [of _ _ e] grammar_raw_check_raises [of _ tool])
      simp_all
next
  assume "LexicalRichness caps text = Inr obj"
  then show "\<exists>r. compute_ttr_score caps text = Inr r"
    by (rule compute_ttr_score_constructed)
next
  assume "LexicalRichness caps text = Inr (Inl e')"
  then show "compute_ttr_score caps text =
      Inr (ttr_band (of_int (int (length (remdups (word_list text))))
                      / of_int (or_1 (int (length (word_list text))))))"
    by (rule compute_ttr_score_fallback)
qed

theorem capability_exceptions_witness:
  "compute_grammar_score
     \<lparr>LT_AVAILABLE = True, LanguageTool = Inl (CapabilityError ''no java''),
      LexicalRichness = (\<lambda>t. Inr (Inl ZeroDivisionError))\<rparr> ''a b a''
     = Inr (8, 7 / 10, ''Good grammar.'')
   \<and> compute_grammar_score
     \<lparr>LT_AVAILABLE = True, LanguageTool = Inr (\<lambda>t. Inl (CapabilityError ''check failed'')),
      LexicalRichness = (\<lambda>t. Inr (Inl ZeroDivisionError))\<rparr> ''a b a''
     = Inr (8, 7 / 10, ''Good grammar.'')
   \<and> compute_ttr_score
     \<lparr>LT_AVAILABLE = True, LanguageTool = Inl (CapabilityError ''no java''),
      LexicalRichness = (\<lambda>t. Inr (Inl ZeroDivisionError))\<rparr> ''a b a''
     = Inr (6, 2 / 3, ''Fair lexical diversity.'')"
  using capability_exceptions [of
      "\<lparr>LT_AVAILABLE = True, LanguageTool = Inl (CapabilityError ''no java''),
        LexicalRichness = (\<lambda>t. Inr (Inl ZeroDivisionError))\<rparr>" "''a b a''"
      "CapabilityError ''no java''" "\<lambda>t. Inl (CapabilityError ''check failed'')"
      "Inl ZeroDivisionError" ZeroDivisionError]
    capability_exceptions [of
      "\<lparr>LT_AVAILABLE = True, LanguageTool = Inr (\<lambda>t. Inl (CapabilityError ''check failed'')),
        LexicalRichness = (\<lambda>t. Inr (Inl ZeroDivisionError))\<rparr>" "''a b a''"
      "CapabilityError ''check failed''" "\<lambda>t. Inl (CapabilityError ''check failed'')"
      "Inl ZeroDivisionError" ZeroDivisionError]
  by (simp add: word_list_aba or_1_def ttr_band_def)

subsection \<open>Filler-word rate\<close>

lemma count_from_nonneg: "0 \<le> count_from k s sub"
  by (induction k s sub rule: count_from.induct) simp_all

lemma phrase_count_nonneg: "0 \<le> phrase_count t"
  by (simp add: phrase_count_def FILLER_WORDS_def count_str_def count_from_nonneg)

text \<open>The first loop adds the occurrences of the filler phrases that contain a space.\<close>

lemma phrase_count_sum:
  "phrase_count t =
     sum_list (map (count_str t) (filter (\<lambda>fw. CHR '' '' \<in> set fw) FILLER_WORDS))"
  by (simp add: phrase_count_def FILLER_WORDS_def)

text \<open>The second loop adds one per token that is a filler word.\<close>

lemma token_count_filter:
  "token_count wl n0 = n0 + int (length (filter (\<lambda>w. w \<in> set FILLER_WORDS) wl))"
  unfolding token_count_def
  by (induction wl arbitrary: n0) simp_all

lemma filler_rate_nonneg: "0 \<le> filler_rate text"
proof -
  have "0 \<le> token_count (word_list text) (phrase_count (join_space (word_list text)))"
    using phrase_count_nonneg [of "join_space (word_list text)"]
    by (simp add: token_count_filter)
  moreover have "0 < or_1 (int (length (word_list text)))"
    by (simp add: or_1_def)
  ultimately show ?thesis
    by (simp add: filler_rate_def Let_def)
qed

lemma compute_filler_rate_score_rate:
  "compute_filler_rate_score text =
     Inr (if 0 \<le> filler_rate text \<and> filler_rate text \<le> 3
          then Some (15, filler_rate text, ''Clear'') else None)"
proof -
  have "truediv a (rat_of_int (or_1 (int (length (word_list text))))) =
      Inr (a / rat_of_int (or_1 (int (length (word_list text)))))" for a
    using or_1_nonzero [of "length (word_list text)"] by (simp add: truediv_def)
  then show ?thesis
    unfolding compute_filler_rate_score_def filler_rate_def Let_def and_then_def
    by (simp only: sum.case if_distrib [of Inr] cong: if_cong)
qed

lemma meant_tokens:
  "word_list (''um so I meant it I meant it '' @ concat (replicate 92 ''a '')) =
     [''um'', ''so'', ''i'', ''meant'', ''it'', ''i'', ''meant'', ''it''] @ replicate 92 ''a''"
  by code_simp

lemma meant_fillers:
  "length (filter (\<lambda>w. w \<in> set FILLER_WORDS)
     ([''um'', ''so'', ''i'', ''meant'', ''it'', ''i'', ''meant'', ''it''] @ replicate 92 ''a'')) = 2"
  by code_simp

lemma meant_no_phrase:
  "\<not> has_filler_phrase
     ([''um'', ''so'', ''i'', ''meant'', ''it'', ''i'', ''meant'', ''it''] @ replicate 92 ''a'')"
  by code_simp

lemma meant_rate:
  "filler_rate (''um so I meant it I meant it '' @ concat (replicate 92 ''a '')) = 4"
  by code_simp

text \<open>
  C8, as stated, fails. The transcript ``um so I meant it I meant it'' followed by 92
  times ``a'' has 100 tokens, exactly 2 of them filler words (um, so), and no filler
  phrase among its consecutive tokens; but ``i mean'' occurs twice as a substring of the
  joined tokens (in ``i meant''), so the count is 4, the rate is 4, and no score is
  returned.
\<close>

theorem filler_phrase_inside_words:
  "length (word_list (''um so I meant it I meant it '' @ concat (replicate 92 ''a ''))) = 100
   \<and> length (filter (\<lambda>w. w \<in> set FILLER_WORDS)
        (word_list (''um so I meant it I meant it '' @ concat (replicate 92 ''a '')))) = 2
   \<and> \<not> has_filler_phrase
        (word_list (''um so I meant it I meant it '' @ concat (replicate 92 ''a '')))
   \<and> filler_rate (''um so I meant it I meant it '' @ concat (replicate 92 ''a '')) = 4
   \<and> compute_filler_rate_score (''um so I meant it I meant it '' @ concat (replicate 92 ''a ''))
       = Inr None"
proof -
  have n: "length (word_list
      (''um so I meant it I meant it '' @ concat (replicate 92 ''a ''))) = 100"
    by (subst meant_tokens) simp
  have f: "length (filter (\<lambda>w. w \<in> set FILLER_WORDS)
      (word_list (''um so I meant it I meant it '' @ concat (replicate 92 ''a '')))) = 2"
    by (simp only: meant_tokens meant_fillers)
  have p: "\<not> has_filler_phrase
      (word_list (''um so I meant it I meant it '' @ concat (replicate 92 ''a '')))"
    by (simp only: meant_tokens meant_no_phrase not_False_eq_True)
  have c: "compute_filler_rate_score
      (''um so I meant it I meant it '' @ concat (replicate 92 ''a '')) = Inr None"
    by (simp only: compute_filler_rate_score_rate meant_rate) simp
  from n f p meant_rate c show ?thesis by blast
qed

text \<open>
  C8, amended. For every transcript with 100 \<open>word_list\<close> tokens, of which exactly 2 are
  filler words, and in whose space-joined token stream no filler phrase with a space
  occurs as a substring (also not inside or across other words), the rate is 2 and
  \<open>compute_filler_rate_score\<close> returns the score 15 with that rate.
\<close>

theorem filler_rate_two_percent:
  assumes "length (word_list text) = 100"
    and "length (filter (\<lambda>w. w \<in> set FILLER_WORDS) (word_list text)) = 2"
    and "list_all (\<lambda>fw. count_str (join_space (word_list text)) fw = 0)
           (filter (\<lambda>fw. CHR '' '' \<in> set fw) FILLER_WORDS)"
  shows "filler_rate text = 2 \<and> compute_filler_rate_score text = Inr (Some (15, 2, ''Clear''))"
proof -
  have "phrase_count (join_space (word_list text)) = 0"
    using assms(3) by (simp add: phrase_count_sum FILLER_WORDS_def)
  then have "token_count (word_list text) (phrase_count (join_space (word_list text))) = 2"
    using assms(2) by (simp add: token_count_filter)
  moreover have "or_1 (int (length (word_list text))) = 100"
    by (simp add: assms(1) or_1_def)
  ultimately have r: "filler_rate text = 2"
    by (simp add: filler_rate_def Let_def)
  then show ?thesis
    by (simp add: compute_filler_rate_score_rate)
qed

lemma hundred_tokens:
  "word_list (''um so '' @ concat (replicate 98 ''a '')) = ''um'' # ''so'' # replicate 98 ''a''"
  by code_simp

lemma hundred_tokens_no_phrase:
  "list_all (\<lambda>fw. count_str (join_space (''um'' # ''so'' # replicate 98 ''a'')) fw = 0)
     (filter (\<lambda>fw. CHR '' '' \<in> set fw) FILLER_WORDS)"
  by code_simp

lemma hundred_tokens_fillers:
  "length (filter (\<lambda>w. w \<in> set FILLER_WORDS) (''um'' # ''so'' # replicate 98 ''a'')) = 2"
  by code_simp

theorem filler_rate_two_percent_witness:
  "length (word_list (''um so '' @ concat (replicate 98 ''a ''))) = 100
   \<and> filler_rate (''um so '' @ concat (replicate 98 ''a '')) = 2
   \<and> compute_filler_rate_score (''um so '' @ concat (replicate 98 ''a '')) =
       Inr (Some (15, 2, ''Clear''))"
proof -
  have n: "length (word_list (''um so '' @ concat (replicate 98 ''a ''))) = 100"
    by (subst hundred_tokens) simp
  have f: "length (filter (\<lambda>w. w \<in> set FILLER_WORDS)
      (word_list (''um so '' @ concat (replicate 98 ''a '')))) = 2"
    by (simp only: hundred_tokens hundred_tokens_fillers)
  have p: "list_all (\<lambda>fw. count_str
      (join_space (word_list (''um so '' @ concat (replicate 98 ''a '')))) fw = 0)
      (filter (\<lambda>fw. CHR '' '' \<in> set fw) FILLER_WORDS)"
    by (simp only: hundred_tokens hundred_tokens_no_phrase)
  from filler_rate_two_percent [OF n f p] n show ?thesis by blast
qed

text \<open>
  C9. The filler rate is never negative, and \<open>compute_filler_rate_score\<close> returns a
  (score, rate, feedback) result exactly when the rate is at most 3; for every transcript
  with a rate above 3 the body ends without a \<open>return\<close>, and the call yields \<open>None\<close>
  instead of a result.
\<close>

theorem filler_rate_partial:
  "0 \<le> filler_rate text
   \<and> compute_filler_rate_score text =
       Inr (if filler_rate text \<le> 3 then Some (15, filler_rate text, ''Clear'') else None)
   \<and> (3 < filler_rate text \<longrightarrow> compute_filler_rate_score text = Inr None)
   \<and> ((\<exists>res. compute_filler_rate_score text = Inr (Some res)) \<longleftrightarrow> filler_rate text \<le> 3)"
  using filler_rate_nonneg [of "text"]
  by (simp add: compute_filler_rate_score_rate)

lemma filler_rate_um_um: "filler_rate ''um um'' = 100"
  by code_simp

theorem filler_rate_partial_witness:
  "3 < filler_rate ''um um'' \<and> compute_filler_rate_score ''um um'' = Inr None"
  using filler_rate_partial [of "''um um''"]
  by (simp add: filler_rate_um_um)

subsection \<open>The empty transcript\<close>

lemma score_transcript_empty:
  "\<exists>r. score_transcript '''' duration_sec = Inr r \<and> words r = 0 \<and> sentences r = 0"
proof (cases "duration_sec = None \<or> duration_sec = Some 0")
  case True
  then show ?thesis
    by (auto simp add: score_transcript_def and_then_def Let_def split_ws_def split_char_def
        strip_def)
next
  case False
  then obtain d where d: "duration_sec = Some d" "d \<noteq> 0"
    by (cases duration_sec) auto
  then show ?thesis
    by (simp add: score_transcript_def and_then_def truediv_def Let_def split_ws_def
        split_char_def strip_def)
qed

lemma salutation_empty: "compute_salutation_score '''' = (0, ''No salutation found.'')"
  by code_simp

lemma keyword_presence_empty:
  "compute_keyword_presence '''' =
     (0,
      [(''name'', False), (''age'', False), (''school_class'', False), (''family'', False),
       (''hobbies'', False)],
      [(''about_family'', False), (''origin_location'', False), (''ambition_goal'', False),
       (''interesting_unique'', False), (''strengths_achievements'', False)])"
  by code_simp

lemma order_flow_empty: "compute_order_flow '''' = (0, ''Order not followed.'')"
  by code_simp

lemma grammar_heuristic_empty:
  assumes "\<not> LT_AVAILABLE caps"
  shows "compute_grammar_score caps '''' = Inr (10, 1, ''Excellent grammar.'')"
proof -
  have "findall_count WIDE_SPACE '''' = 0" "findall_count REPEATED_WORD (lower '''') = 0"
    by (simp_all add: findall_count_def lower_def)
  then have "grammar_raw caps '''' 1 = Inr 1"
    using assms by (simp add: grammar_raw_def and_then_Inr truediv_def)
  then show ?thesis
    by (simp add: compute_grammar_score_def word_list_empty or_1_def and_then_Inr
        try_except_def grammar_band_def)
qed

lemma filler_empty: "compute_filler_rate_score '''' = Inr (Some (15, 0, ''Clear''))"
  by code_simp

text \<open>
  C10. For the empty transcript: \<open>score_transcript\<close> reports 0 words and 0 sentences,
  for every duration; the salutation, keyword and flow evaluators return their zero
  results; the word count used as a denominator (\<open>len(word_list(text)) or 1\<close>) is 1; and
  the speech rate, grammar, vocabulary and filler evaluators return a result, none of
  them raising \<open>ZeroDivisionError\<close>: the grammar heuristic gives quality 1, the
  vocabulary fallback the ratio 0, the filler rate is 0. (For the vocabulary evaluator,
  provided the constructor \<open>LexicalRichness(text)\<close> returns.)
\<close>

theorem empty_transcript:
  "(\<exists>r. score_transcript '''' duration_sec = Inr r \<and> words r = 0 \<and> sentences r = 0)
   \<and> compute_salutation_score '''' = (0, ''No salutation found.'')
   \<and> compute_keyword_presence '''' =
       (0,
        [(''name'', False), (''age'', False), (''school_class'', False), (''family'', False),
         (''hobbies'', False)],
        [(''about_family'', False), (''origin_location'', False), (''ambition_goal'', False),
         (''interesting_unique'', False), (''strengths_achievements'', False)])
   \<and> compute_order_flow '''' = (0, ''Order not followed.'')
   \<and> or_1 (int (length (word_list ''''))) = 1
   \<and> (\<exists>r. compute_speech_rate 0 duration_sec = Inr r)
   \<and> (\<exists>r. compute_grammar_score caps '''' = Inr r)
   \<and> (\<not> LT_AVAILABLE caps
        \<longrightarrow> compute_grammar_score caps '''' = Inr (10, 1, ''Excellent grammar.''))
   \<and> ttr_fallback '''' = Inr 0
   \<and> (LexicalRichness caps '''' = Inr obj \<longrightarrow> (\<exists>r. compute_ttr_score caps '''' = Inr r))
   \<and> (LexicalRichness caps '''' = Inr (Inl e)
        \<longrightarrow> compute_ttr_score caps '''' = Inr (2, 0, ''Very poor lexical diversity.''))
   \<and> compute_filler_rate_score '''' = Inr (Some (15, 0, ''Clear''))"
proof (intro conjI impI)
  show "\<exists>r. score_transcript '''' duration_sec = Inr r \<and> words r = 0 \<and> sentences r = 0"
    by (rule score_transcript_empty)
  show "compute_salutation_score '''' = (0, ''No salutation found.'')"
    by (rule salutation_empty)
  show "compute_keyword_presence '''' =
       (0,
        [(''name'', False), (''age'', False), (''school_class'', False), (''family'', False),
         (''hobbies'', False)],
        [(''about_family'', False), (''origin_location'', False), (''ambition_goal'', False),
         (''interesting_unique'', False), (''strengths_achievements'', False)])"
    by (rule keyword_presence_empty)
  show "compute_order_flow '''' = (0, ''Order not followed.'')"
    by (rule order_flow_empty)
  show "or_1 (int (length (word_list ''''))) = 1"
    by (simp add: word_list_empty or_1_def)
  show "\<exists>r. compute_speech_rate 0 duration_sec = Inr r"
    by (rule compute_speech_rate_total)
  show "\<exists>r. compute_grammar_score caps '''' = Inr r"
    by (rule compute_grammar_score_total)
  show "compute_grammar_score caps '''' = Inr (10, 1, ''Excellent grammar.'')"
    if "\<not> LT_AVAILABLE caps"
    using that by (rule grammar_heuristic_empty)
  show "ttr_fallback '''' = Inr 0"
    by (simp add: ttr_fallback_value word_list_empty)
  show "\<exists>r. compute_ttr_score caps '''' = Inr r" if "LexicalRichness caps '''' = Inr obj"
    using that by (rule compute_ttr_score_constructed)
  show "compute_ttr_score caps '''' = Inr (2, 0, ''Very poor lexical diversity.'')"
    if "LexicalRichness caps '''' = Inr (Inl e)"
    using compute_ttr_score_fallback [OF that]
    by (simp add: word_list_empty ttr_band_def)
  show "compute_filler_rate_score '''' = Inr (Some (15, 0, ''Clear''))"
    by (rule filler_empty)
qed

theorem empty_transcript_witness:
  "compute_grammar_score
     \<lparr>LT_AVAILABLE = False, LanguageTool = Inl (CapabilityError ''not installed''),
      LexicalRichness = (\<lambda>t. Inr (Inl ZeroDivisionError))\<rparr> ''''
     = Inr (10, 1, ''Excellent grammar.'')
   \<and> compute_ttr_score
     \<lparr>LT_AVAILABLE = False, LanguageTool = Inl (CapabilityError ''not installed''),
      LexicalRichness = (\<lambda>t. Inr (Inl ZeroDivisionError))\<rparr> ''''
     = Inr (2, 0, ''Very poor lexical diversity.'')"
  using empty_transcript [of None
      "\<lparr>LT_AVAILABLE = False, LanguageTool = Inl (CapabilityError ''not installed''),
        LexicalRichness = (\<lambda>t. Inr (Inl ZeroDivisionError))\<rparr>"
      "Inl ZeroDivisionError" ZeroDivisionError]
  by simp

end
